theory Spec2Isabelle
  imports Main "HOL-Library.Char_ord" "HOL-Library.List_Lexorder" "HOL-Library.Multiset"
    "HOL-Library.Word"
begin

section \<open>Bytes and strings\<close>

text \<open>
  A Go \<^verbatim>\<open>byte\<close> is eight bits and a Go \<^verbatim>\<open>string\<close> is a sequence of bytes.
  The HOL type \<^typ>\<open>char\<close> is the type of eight-bit values (\<^term>\<open>Char b0 b1 b2 b3 b4 b5 b6 b7\<close>,
  least significant bit first), so both \<^verbatim>\<open>[]byte\<close> and \<^verbatim>\<open>string\<close> are
  \<^typ>\<open>char list\<close>, and the conversions \<^verbatim>\<open>[]byte(s)\<close> and \<^verbatim>\<open>string(b)\<close> are the
  identity. The order on strings is the byte-wise lexicographic one of Go's \<^verbatim>\<open><\<close>.
\<close>

type_synonym byte = char

section \<open>SHA-256\<close>

text \<open>
  \<^verbatim>\<open>sha256.Sum256\<close> of the Go standard library computes the SHA-256 digest of FIPS 180-4.
  A 32-bit word is the list of its bits, least significant first; addition is modulo
  \<open>2^32\<close> (the carry out of the last bit is dropped).
\<close>

type_synonym u32 = "bool list"

fun bxor :: "u32 \<Rightarrow> u32 \<Rightarrow> u32" where
  "bxor (x # xs) (y # ys) = (x \<noteq> y) # bxor xs ys"
| "bxor xs ys = []"

fun band :: "u32 \<Rightarrow> u32 \<Rightarrow> u32" where
  "band (x # xs) (y # ys) = (x \<and> y) # band xs ys"
| "band xs ys = []"

definition bnot :: "u32 \<Rightarrow> u32" where
  "bnot xs = map Not xs"

fun addc :: "bool \<Rightarrow> u32 \<Rightarrow> u32 \<Rightarrow> u32" where
  "addc c (x # xs) (y # ys) =
     ((x \<noteq> y) \<noteq> c) # addc ((x \<and> y) \<or> (c \<and> (x \<noteq> y))) xs ys"
| "addc c xs ys = []"

definition add32 :: "u32 \<Rightarrow> u32 \<Rightarrow> u32" where
  "add32 x y = addc False x y"

definition rotr :: "nat \<Rightarrow> u32 \<Rightarrow> u32" where
  "rotr n x = drop n x @ take n x"

definition shr :: "nat \<Rightarrow> u32 \<Rightarrow> u32" where
  "shr n x = drop n x @ map (\<lambda>b. False) (take n x)"

definition Ch :: "u32 \<Rightarrow> u32 \<Rightarrow> u32 \<Rightarrow> u32" where
  "Ch x y z = bxor (band x y) (band (bnot x) z)"

definition Maj :: "u32 \<Rightarrow> u32 \<Rightarrow> u32 \<Rightarrow> u32" where
  "Maj x y z = bxor (bxor (band x y) (band x z)) (band y z)"

definition bsig0 :: "u32 \<Rightarrow> u32" where
  "bsig0 x = bxor (bxor (rotr 2 x) (rotr 13 x)) (rotr 22 x)"

definition bsig1 :: "u32 \<Rightarrow> u32" where
  "bsig1 x = bxor (bxor (rotr 6 x) (rotr 11 x)) (rotr 25 x)"

definition ssig0 :: "u32 \<Rightarrow> u32" where
  "ssig0 x = bxor (bxor (rotr 7 x) (rotr 18 x)) (shr 3 x)"

definition ssig1 :: "u32 \<Rightarrow> u32" where
  "ssig1 x = bxor (bxor (rotr 17 x) (rotr 19 x)) (shr 10 x)"

definition u32_of_nat :: "nat \<Rightarrow> u32" where
  "u32_of_nat n = map (\<lambda>d. odd (n div d))
     [1, 2, 4, 8, 16, 32, 64, 128, 256, 512, 1024, 2048, 4096, 8192, 16384, 32768,
      65536, 131072, 262144, 524288, 1048576, 2097152, 4194304, 8388608, 16777216,
      33554432, 67108864, 134217728, 268435456, 536870912, 1073741824, 2147483648]"

definition K256 :: "u32 list" where
  "K256 = map u32_of_nat [
   0x428A2F98, 0x71374491, 0xB5C0FBCF, 0xE9B5DBA5, 0x3956C25B, 0x59F111F1, 0x923F82A4, 0xAB1C5ED5,
   0xD807AA98, 0x12835B01, 0x243185BE, 0x550C7DC3, 0x72BE5D74, 0x80DEB1FE, 0x9BDC06A7, 0xC19BF174,
   0xE49B69C1, 0xEFBE4786, 0x0FC19DC6, 0x240CA1CC, 0x2DE92C6F, 0x4A7484AA, 0x5CB0A9DC, 0x76F988DA,
   0x983E5152, 0xA831C66D, 0xB00327C8, 0xBF597FC7, 0xC6E00BF3, 0xD5A79147, 0x06CA6351, 0x14292967,
   0x27B70A85, 0x2E1B2138, 0x4D2C6DFC, 0x53380D13, 0x650A7354, 0x766A0ABB, 0x81C2C92E, 0x92722C85,
   0xA2BFE8A1, 0xA81A664B, 0xC24B8B70, 0xC76C51A3, 0xD192E819, 0xD6990624, 0xF40E3585, 0x106AA070,
   0x19A4C116, 0x1E376C08, 0x2748774C, 0x34B0BCB5, 0x391C0CB3, 0x4ED8AA4A, 0x5B9CCA4F, 0x682E6FF3,
   0x748F82EE, 0x78A5636F, 0x84C87814, 0x8CC70208, 0x90BEFFFA, 0xA4506CEB, 0xBEF9A3F7, 0xC67178F2]"

definition H256 :: "u32 list" where
  "H256 = map u32_of_nat [0x6A09E667, 0xBB67AE85, 0x3C6EF372, 0xA54FF53A,
                          0x510E527F, 0x9B05688C, 0x1F83D9AB, 0x5BE0CD19]"

text \<open>One round on the working variables \<open>a, \<dots>, h\<close>, with \<open>t1\<close> and \<open>t2\<close> of the
  standard.\<close>

fun sha_upd :: "u32 \<Rightarrow> u32 \<Rightarrow> u32 list \<Rightarrow> u32 list" where
  "sha_upd t1 t2 [a, b, c, d, e, f, g, h] = [add32 t1 t2, a, b, c, add32 d t1, e, f, g]"
| "sha_upd t1 t2 s = s"

fun sha_round :: "u32 \<Rightarrow> u32 \<Rightarrow> u32 list \<Rightarrow> u32 list" where
  "sha_round k w [a, b, c, d, e, f, g, h] =
     sha_upd (add32 (add32 (add32 (add32 h (bsig1 e)) (Ch e f g)) k) w)
             (add32 (bsig0 a) (Maj a b c)) [a, b, c, d, e, f, g, h]"
| "sha_round k w s = s"

text \<open>The message schedule, kept as the window of the last sixteen words: the head is
  the word of the current round, and the window moves by one word per round.\<close>

fun next_window :: "u32 list \<Rightarrow> u32 list" where
  "next_window (w0 # w1 # ws) =
     w1 # ws @ [add32 (add32 (add32 (ssig1 (ws ! 12)) (ws ! 7)) (ssig0 w1)) w0]"
| "next_window ws = ws"

fun sha_rounds :: "u32 list \<Rightarrow> u32 list \<Rightarrow> u32 list \<Rightarrow> u32 list" where
  "sha_rounds [] w s = s"
| "sha_rounds (k # ks) w s = sha_rounds ks (next_window w) (sha_round k (hd w) s)"

definition compress :: "u32 list \<Rightarrow> u32 list \<Rightarrow> u32 list" where
  "compress hs blk = map2 add32 hs (sha_rounds K256 blk hs)"

fun bits8 :: "byte \<Rightarrow> bool list" where
  "bits8 (Char b0 b1 b2 b3 b4 b5 b6 b7) = [b0, b1, b2, b3, b4, b5, b6, b7]"

fun byte_of :: "bool list \<Rightarrow> byte" where
  "byte_of (b0 # b1 # b2 # b3 # b4 # b5 # b6 # b7 # bs) = Char b0 b1 b2 b3 b4 b5 b6 b7"
| "byte_of bs = CHR 0x00"

text \<open>Big-endian: the first byte of four is the most significant.\<close>

fun be32 :: "byte list \<Rightarrow> u32 list" where
  "be32 (a # b # c # d # bs) = (bits8 d @ bits8 c @ bits8 b @ bits8 a) # be32 bs"
| "be32 bs = []"

definition bytes_of_u32 :: "u32 \<Rightarrow> byte list" where
  "bytes_of_u32 w = [byte_of (drop 24 w), byte_of (drop 16 w), byte_of (drop 8 w), byte_of w]"

definition byte_of_nat :: "nat \<Rightarrow> byte" where
  "byte_of_nat n = byte_of (map (\<lambda>d. odd (n div d)) [1, 2, 4, 8, 16, 32, 64, 128])"

definition bytes_of_u64 :: "nat \<Rightarrow> byte list" where
  "bytes_of_u64 n = map (\<lambda>i. byte_of_nat (n div 2 ^ i)) [56, 48, 40, 32, 24, 16, 8, 0]"

text \<open>Padding: the byte \<open>0x80\<close>, zero bytes up to 56 modulo 64, and the length of the
  message in bits as a 64-bit big-endian number.\<close>

definition sha_pad :: "byte list \<Rightarrow> byte list" where
  "sha_pad m = m @ [CHR 0x80] @ replicate ((119 - length m mod 64) mod 64) (CHR 0x00)
                 @ bytes_of_u64 ((8 * length m) mod 2 ^ 64)"

fun sha_blocks :: "u32 list \<Rightarrow> u32 list \<Rightarrow> u32 list" where
  "sha_blocks hs ws =
     (if length ws < 16 then hs else sha_blocks (compress hs (take 16 ws)) (drop 16 ws))"

declare sha_blocks.simps [simp del]

definition sha256 :: "byte list \<Rightarrow> byte list" where
  "sha256 m = concat (map bytes_of_u32 (sha_blocks H256 (be32 (sha_pad m))))"

section \<open>Hex encoding and the two hash functions\<close>

text \<open>\<^verbatim>\<open>hex.EncodeToString\<close>: two characters of the table \<^verbatim>\<open>0123456789abcdef\<close> per
  byte, the high four bits first.\<close>

definition nat_of_bits :: "bool list \<Rightarrow> nat" where
  "nat_of_bits bs = foldr (\<lambda>b n. of_bool b + 2 * n) bs 0"

definition hextable :: string where
  "hextable = ''0123456789abcdef''"

definition hexdigit :: "bool list \<Rightarrow> char" where
  "hexdigit n = hextable ! nat_of_bits n"

definition EncodeToString :: "byte list \<Rightarrow> string" where
  "EncodeToString bs =
     concat (map (\<lambda>b. [hexdigit (drop 4 (bits8 b)), hexdigit (take 4 (bits8 b))]) bs)"

definition HashData :: "byte list \<Rightarrow> string" where
  "HashData d = EncodeToString (sha256 (''LEAF:'' @ d))"

definition HashConcat :: "string \<Rightarrow> string \<Rightarrow> string" where
  "HashConcat hash1 hash2 = EncodeToString (sha256 ((''INTERNAL:'' @ hash1) @ hash2))"

section \<open>The data model\<close>

text \<open>
  A \<^verbatim>\<open>*MerkleNode\<close> is a pointer: \<open>None\<close> is \<^verbatim>\<open>nil\<close>, and a non-nil pointer is the
  address of the node together with the node stored there. Nodes are never written after
  their allocation, so the value behind an address never changes; two pointers are equal
  when their addresses are. The allocator hands out the addresses 0, 1, 2, \<dots> in the
  order of the allocations.
\<close>

datatype MerkleNode = MerkleNode
  (addr: nat)
  (Hash: string)
  (Left: "MerkleNode option")
  (Right: "MerkleNode option")
  (IsLeaf: bool)
  (Data: "byte list")
  (BlockID: string)

definition ptr_eq :: "MerkleNode option \<Rightarrow> MerkleNode option \<Rightarrow> bool" where
  "ptr_eq p q = (map_option addr p = map_option addr q)"

record MerkleTree =
  Root :: "MerkleNode option"
  Leaves :: "MerkleNode list"
  RootHash :: string

record DataBlock =
  ID :: string
  EncryptedData :: "byte list"
  TableName :: string
  Operation :: string
  Timestamp :: "64 word"
  Metadata :: "string \<rightharpoonup> string"

text \<open>The fields \<^verbatim>\<open>Hash\<close> and \<^verbatim>\<open>IsLeft\<close> of a \<^verbatim>\<open>ProofNode\<close>, and \<^verbatim>\<open>Hash\<close> and
  \<^verbatim>\<open>IsLeaf\<close> of a \<^verbatim>\<open>DiffNode\<close>.\<close>

datatype ProofNode = ProofNode (proof_Hash: string) (proof_IsLeft: bool)

datatype DiffNode = DiffNode (diff_Hash: string) (diff_IsLeaf: bool)

text \<open>The errors, named after their messages: \<^verbatim>\<open>empty tree\<close>,
  \<^verbatim>\<open>no matching leaf nodes found\<close>, \<^verbatim>\<open>no leaf hashes provided\<close> and \<^verbatim>\<open>one tree is nil\<close>.\<close>

datatype error = EmptyTree | NoMatchingLeafNodes | NoLeafHashes | OneTreeIsNil

section \<open>Building the tree\<close>

text \<open>The loop of \<^verbatim>\<open>buildTree\<close> that allocates one parent for each pair of nodes; \<open>a\<close>
  is the next free address. The list has an even length there, so \<^verbatim>\<open>nodes[i+1]\<close> is
  always in range.\<close>

fun parents :: "nat \<Rightarrow> MerkleNode list \<Rightarrow> MerkleNode list" where
  "parents a (left # right # nodes) =
     MerkleNode a (HashConcat (Hash left) (Hash right)) (Some left) (Some right) False [] []
       # parents (Suc a) nodes"
| "parents a nodes = []"

lemma length_parents [simp]: "length (parents a nodes) = length nodes div 2"
  by (induct a nodes rule: parents.induct) simp_all

text \<open>An odd number of nodes: the pointer to the last one is appended once more.\<close>

definition duplicate_last :: "MerkleNode list \<Rightarrow> MerkleNode list" where
  "duplicate_last nodes =
     (if length nodes mod 2 = 1 then nodes @ [nodes ! (length nodes - 1)] else nodes)"

lemma length_duplicate_last [simp]:
  "length (duplicate_last nodes) = length nodes + length nodes mod 2"
  by (simp add: duplicate_last_def)

lemma half_up_less: "n \<noteq> 0 \<Longrightarrow> n \<noteq> Suc 0 \<Longrightarrow> (n + n mod 2) div 2 < n"
  by arith

function buildTree :: "nat \<Rightarrow> MerkleNode list \<Rightarrow> MerkleNode option" where
  "buildTree a nodes =
     (if length nodes = 0 then None
      else if length nodes = 1 then Some (nodes ! 0)
      else let ps = parents a (duplicate_last nodes)
           in buildTree (a + length ps) ps)"
  by pat_completeness auto
termination
  by (relation "measure (\<lambda>(a, nodes). length nodes)")
     (auto simp del: length_0_conv simp add: half_up_less)

declare buildTree.simps [simp del]

text \<open>The leaves are allocated first, one for each block, in the order of the blocks.\<close>

definition leaf_nodes :: "DataBlock list \<Rightarrow> MerkleNode list" where
  "leaf_nodes blocks =
     map (\<lambda>(i, block). MerkleNode i (HashData (EncryptedData block)) None None True
                          (EncryptedData block) (ID block))
         (enumerate 0 blocks)"

definition NewMerkleTree :: "DataBlock list \<Rightarrow> error + MerkleTree" where
  "NewMerkleTree blocks =
     (if length blocks = 0 then Inr \<lparr>Root = None, Leaves = [], RootHash = ''''\<rparr>
      else let leaves = leaf_nodes blocks;
               root = buildTree (length blocks) leaves;
               rootHash = (case root of None \<Rightarrow> '''' | Some r \<Rightarrow> Hash r)
           in Inr \<lparr>Root = root, Leaves = leaves, RootHash = rootHash\<rparr>)"

section \<open>Generating a proof\<close>

text \<open>\<^verbatim>\<open>findParentRecursive\<close> searches the subtree of \<open>current\<close> for the first node, in
  depth-first order, one of whose child pointers equals \<open>target\<close>.\<close>

fun findParentRecursive :: "MerkleNode option \<Rightarrow> MerkleNode option \<Rightarrow> MerkleNode option" where
  "findParentRecursive None target = None"
| "findParentRecursive (Some (MerkleNode a h l r leaf d b)) target =
     (if leaf then None
      else if ptr_eq l target \<or> ptr_eq r target then Some (MerkleNode a h l r leaf d b)
      else (case findParentRecursive l target of
              Some parent \<Rightarrow> Some parent
            | None \<Rightarrow> findParentRecursive r target))"

definition findParent :: "MerkleTree \<Rightarrow> MerkleNode \<Rightarrow> MerkleNode option" where
  "findParent mt target = findParentRecursive (Root mt) (Some target)"

text \<open>One turn of the loop of \<^verbatim>\<open>getProofPath\<close>, once the parent is found: the sibling of
  \<open>current\<close> under \<open>parent\<close>, the proof path with the sibling appended unless its hash
  is already in \<open>visited\<close>, and \<open>visited\<close> with that hash. The map \<^verbatim>\<open>visited\<close> is the
  set of the hashes it maps to true; it is shared by all the calls of one
  \<^verbatim>\<open>GenerateProof\<close>.\<close>

definition isLeft :: "MerkleNode \<Rightarrow> MerkleNode \<Rightarrow> bool" where
  "isLeft parent current = ptr_eq (Left parent) (Some current)"

definition sibling :: "MerkleNode \<Rightarrow> MerkleNode \<Rightarrow> MerkleNode option" where
  "sibling parent current = (if isLeft parent current then Right parent else Left parent)"

definition add_sibling ::
  "MerkleNode \<Rightarrow> MerkleNode \<Rightarrow> ProofNode list \<Rightarrow> string set \<Rightarrow> ProofNode list" where
  "add_sibling parent current proofPath visited =
     (case sibling parent current of
        None \<Rightarrow> proofPath
      | Some s \<Rightarrow> if Hash s \<notin> visited
                  then proofPath @ [ProofNode (Hash s) (\<not> isLeft parent current)]
                  else proofPath)"

definition mark_sibling :: "MerkleNode \<Rightarrow> MerkleNode \<Rightarrow> string set \<Rightarrow> string set" where
  "mark_sibling parent current visited =
     (case sibling parent current of
        None \<Rightarrow> visited
      | Some s \<Rightarrow> if Hash s \<notin> visited then insert (Hash s) visited else visited)"

text \<open>The loop of \<^verbatim>\<open>getProofPath\<close>. It runs until \<open>current\<close> is the root or has no
  parent in the tree; a run that never ends is the value \<open>None\<close>.\<close>

partial_function (option) climb ::
  "MerkleTree \<Rightarrow> MerkleNode \<Rightarrow> ProofNode list \<Rightarrow> string set
     \<Rightarrow> (ProofNode list \<times> string set) option" where
  "climb mt current proofPath visited =
     (if ptr_eq (Some current) (Root mt) then Some (proofPath, visited)
      else (case findParent mt current of
              None \<Rightarrow> Some (proofPath, visited)
            | Some parent \<Rightarrow>
                climb mt parent (add_sibling parent current proofPath visited)
                                (mark_sibling parent current visited)))"

definition getProofPath ::
  "MerkleTree \<Rightarrow> MerkleNode \<Rightarrow> string set \<Rightarrow> (ProofNode list \<times> string set) option" where
  "getProofPath mt leaf visited = climb mt leaf [] visited"

text \<open>The first loop of \<^verbatim>\<open>GenerateProof\<close>: for each requested hash, the first leaf with
  that hash, when there is one.\<close>

definition matching_leaves :: "MerkleNode list \<Rightarrow> string list \<Rightarrow> MerkleNode list" where
  "matching_leaves leaves leafHashes =
     concat (map (\<lambda>hash. case find (\<lambda>leaf. Hash leaf = hash) leaves of
                            None \<Rightarrow> []
                          | Some leaf \<Rightarrow> [leaf]) leafHashes)"

text \<open>The second loop: the paths of the found leaves, one after the other.\<close>

fun proof_paths ::
  "MerkleTree \<Rightarrow> MerkleNode list \<Rightarrow> ProofNode list \<Rightarrow> string set
     \<Rightarrow> (ProofNode list \<times> string set) option" where
  "proof_paths mt [] proofPath visited = Some (proofPath, visited)"
| "proof_paths mt (leaf # leafNodes) proofPath visited =
     (case getProofPath mt leaf visited of
        None \<Rightarrow> None
      | Some (path, visited') \<Rightarrow> proof_paths mt leafNodes (proofPath @ path) visited')"

text \<open>\<^verbatim>\<open>GenerateProof\<close> returns an error or the proof path; \<open>None\<close> stands for a call that
  does not return.\<close>

definition GenerateProof :: "MerkleTree \<Rightarrow> string list \<Rightarrow> (error + ProofNode list) option" where
  "GenerateProof mt leafHashes =
     (if Root mt = None then Some (Inl EmptyTree)
      else let leafNodes = matching_leaves (Leaves mt) leafHashes
           in if length leafNodes = 0 then Some (Inl NoMatchingLeafNodes)
              else map_option (\<lambda>(proofPath, visited). Inr proofPath)
                     (proof_paths mt leafNodes [] {}))"

section \<open>Verifying a proof\<close>

text \<open>One pass of the loop of \<^verbatim>\<open>reconstructRootMultiple\<close> over a level: neighbours are
  combined in pairs, and a last hash without a neighbour is combined with itself.\<close>

fun next_level :: "string list \<Rightarrow> string list" where
  "next_level (x # y # hs) = HashConcat x y # next_level hs"
| "next_level [x] = [HashConcat x x]"
| "next_level [] = []"

lemma length_next_level [simp]: "length (next_level hs) = (length hs + 1) div 2"
  by (induct hs rule: next_level.induct) simp_all

function levels :: "string list \<Rightarrow> string list" where
  "levels currentLevel =
     (if length currentLevel > 1 then levels (next_level currentLevel) else currentLevel)"
  by pat_completeness auto
termination
  by (relation "measure length") auto

declare levels.simps [simp del]

definition reconstructRootMultiple :: "string list \<Rightarrow> ProofNode list \<Rightarrow> string" where
  "reconstructRootMultiple leafHashes proofPath =
     (let availableHashes = set leafHashes \<union> set (map proof_Hash proofPath);
          currentLevel = sort (filter (\<lambda>hash. hash \<in> availableHashes) leafHashes);
          top = levels currentLevel
      in if length top = 1 then top ! 0 else '''')"

definition combine :: "string \<Rightarrow> ProofNode \<Rightarrow> string" where
  "combine currentHash proofNode =
     (if proof_IsLeft proofNode then HashConcat (proof_Hash proofNode) currentHash
      else HashConcat currentHash (proof_Hash proofNode))"

definition reconstructRoot :: "string list \<Rightarrow> ProofNode list \<Rightarrow> string" where
  "reconstructRoot leafHashes proofPath =
     (if length leafHashes = 0 then ''''
      else if length leafHashes > 1 then reconstructRootMultiple leafHashes proofPath
      else foldl combine (leafHashes ! 0) proofPath)"

text \<open>\<^verbatim>\<open>sort.Strings\<close> sorts in increasing byte-wise lexicographic order; strings that
  compare equal are equal, so the result is the sorted list of the same strings.\<close>

definition VerifyProof :: "string \<Rightarrow> string list \<Rightarrow> ProofNode list \<Rightarrow> error + bool" where
  "VerifyProof rootHash leafHashes proofPath =
     (if length leafHashes = 0 then Inl NoLeafHashes
      else let sortedLeaves = sort leafHashes;
               computedRoot = reconstructRoot sortedLeaves proofPath
           in Inr (computedRoot = rootHash))"

section \<open>Comparing two trees\<close>

text \<open>\<^verbatim>\<open>diffNodes\<close> appends to the list \<^verbatim>\<open>differences\<close>; the list is passed in and
  returned.\<close>

fun diffNodes :: "MerkleNode option \<Rightarrow> MerkleNode option \<Rightarrow> DiffNode list \<Rightarrow> DiffNode list" where
  "diffNodes None None differences = differences"
| "diffNodes (Some node1) None differences =
     differences @ [DiffNode (Hash node1) (IsLeaf node1)]"
| "diffNodes None (Some node2) differences =
     differences @ [DiffNode (Hash node2) (IsLeaf node2)]"
| "diffNodes (Some (MerkleNode a1 h1 l1 r1 leaf1 d1 b1)) (Some (MerkleNode a2 h2 l2 r2 leaf2 d2 b2))
     differences =
     (if h1 \<noteq> h2
      then if leaf1 \<and> leaf2 then differences @ [DiffNode h1 True, DiffNode h2 True]
           else diffNodes r1 r2 (diffNodes l1 l2 differences)
      else differences)"

definition DiffTrees :: "MerkleTree option \<Rightarrow> MerkleTree option \<Rightarrow> error + DiffNode list" where
  "DiffTrees root1 root2 =
     (case (root1, root2) of
        (None, None) \<Rightarrow> Inr []
      | (None, Some tree2) \<Rightarrow> Inl OneTreeIsNil
      | (Some tree1, None) \<Rightarrow> Inl OneTreeIsNil
      | (Some tree1, Some tree2) \<Rightarrow> Inr (diffNodes (Root tree1) (Root tree2) []))"

section \<open>Test data\<close>

text \<open>The first two blocks of the repository's tests.\<close>

definition block1 :: DataBlock where
  "block1 = \<lparr>ID = ''1'', EncryptedData = ''data1'', TableName = ''table1'', Operation = '''',
              Timestamp = 0, Metadata = Map.empty\<rparr>"

definition block2 :: DataBlock where
  "block2 = \<lparr>ID = ''2'', EncryptedData = ''data2'', TableName = ''table1'', Operation = '''',
              Timestamp = 0, Metadata = Map.empty\<rparr>"

section \<open>Lengths of digests\<close>

lemma length_sha_upd [simp]: "length (sha_upd t1 t2 s) = length s"
  by (induct t1 t2 s rule: sha_upd.induct) simp_all

lemma length_sha_round [simp]: "length (sha_round k w s) = length s"
  by (induct k w s rule: sha_round.induct) simp_all

lemma length_sha_rounds [simp]: "length (sha_rounds ks w s) = length s"
  by (induct ks arbitrary: w s) simp_all

lemma length_compress [simp]: "length (compress hs blk) = length hs"
  by (simp add: compress_def)

lemma length_sha_blocks [simp]: "length (sha_blocks hs ws) = length hs"
proof (induct hs ws rule: sha_blocks.induct)
  case (1 hs ws)
  then show ?case
    by (subst sha_blocks.simps) simp
qed

lemma length_concat_bytes_of_u32 [simp]:
  "length (concat (map bytes_of_u32 ws)) = 4 * length ws"
  by (induct ws) (simp_all add: bytes_of_u32_def)

lemma length_sha256 [simp]: "length (sha256 m) = 32"
  by (simp add: sha256_def H256_def)

lemma length_EncodeToString [simp]: "length (EncodeToString bs) = 2 * length bs"
  by (induct bs) (simp_all add: EncodeToString_def)

lemma length_HashData [simp]: "length (HashData d) = 64"
  by (simp add: HashData_def)

lemma length_HashConcat [simp]: "length (HashConcat x y) = 64"
  by (simp add: HashConcat_def)

section \<open>The hex alphabet\<close>

lemma nat_of_bits_4: "length n = 4 \<Longrightarrow> nat_of_bits n < 16"
proof -
  assume "length n = 4"
  then obtain a b c d where "n = [a, b, c, d]"
    by (cases n; simp; rename_tac y ys; case_tac ys; simp; rename_tac z zs; case_tac zs; simp;
        rename_tac w ws; case_tac ws; simp)
  then show ?thesis by (simp add: nat_of_bits_def of_bool_def)
qed

lemma hexdigit_in: "length n = 4 \<Longrightarrow> hexdigit n \<in> set hextable"
proof -
  assume "length n = 4"
  moreover have "length hextable = 16" by (simp add: hextable_def)
  ultimately have "nat_of_bits n < length hextable" using nat_of_bits_4 [of n] by simp
  then show ?thesis unfolding hexdigit_def by (rule nth_mem)
qed

lemma length_bits8 [simp]: "length (bits8 b) = 8"
  by (cases b) simp

lemma set_EncodeToString: "set (EncodeToString bs) \<subseteq> set hextable"
  by (auto simp add: EncodeToString_def hexdigit_in)

section \<open>First facts about the construction\<close>

lemma NewMerkleTree_Inr: "\<exists>t. NewMerkleTree blocks = Inr t"
  by (simp add: NewMerkleTree_def Let_def)

lemma length_leaf_nodes [simp]: "length (leaf_nodes blocks) = length blocks"
  by (simp add: leaf_nodes_def)

lemma buildTree_rec:
  "2 \<le> length nodes \<Longrightarrow>
   buildTree a nodes = buildTree (a + length (parents a (duplicate_last nodes)))
                                 (parents a (duplicate_last nodes))"
  by (subst buildTree.simps) (auto simp add: Let_def)

lemma buildTree_single [simp]: "buildTree a [n] = Some n"
  by (subst buildTree.simps) simp

lemma parents_inner: "n \<in> set (parents a nodes) \<Longrightarrow> \<not> IsLeaf n \<and> length (Hash n) = 64"
  by (induct a nodes rule: parents.induct) auto

lemma buildTree_inner:
  "2 \<le> length nodes \<Longrightarrow> \<exists>r. buildTree a nodes = Some r \<and> \<not> IsLeaf r \<and> length (Hash r) = 64"
proof (induct a nodes rule: buildTree.induct)
  case (1 a nodes)
  define ps where "ps = parents a (duplicate_last nodes)"
  have inner: "\<forall>n \<in> set ps. \<not> IsLeaf n \<and> length (Hash n) = 64"
    unfolding ps_def using parents_inner by blast
  have ne: "length ps \<noteq> 0" unfolding ps_def using 1(2) by simp
  show ?case
  proof (cases "length ps = 1")
    case True
    then obtain p where p: "ps = [p]" by (cases ps) auto
    then show ?thesis using inner buildTree_rec [OF 1(2), of a] by (simp add: ps_def[symmetric])
  next
    case False
    then have "2 \<le> length ps" using ne by arith
    moreover have "length nodes \<noteq> 0" "length nodes \<noteq> 1" using 1(2) by auto
    ultimately have "\<exists>r. buildTree (a + length ps) ps = Some r \<and> \<not> IsLeaf r \<and> length (Hash r) = 64"
      using 1(1)[OF _ _ ps_def] by blast
    then show ?thesis using buildTree_rec [OF 1(2), of a] by (simp add: ps_def)
  qed
qed

lemma buildTree_Some:
  assumes "nodes \<noteq> []" "\<forall>n \<in> set nodes. length (Hash n) = 64"
  shows "\<exists>r. buildTree a nodes = Some r \<and> length (Hash r) = 64"
proof (cases "length nodes = 1")
  case True
  then obtain n where "nodes = [n]" by (cases nodes) auto
  then show ?thesis using assms(2) by simp
next
  case False
  moreover have "length nodes \<noteq> 0" using assms(1) by simp
  ultimately have "2 \<le> length nodes" by arith
  then show ?thesis using buildTree_inner by blast
qed

section \<open>Evaluating the digest\<close>

text \<open>The constants of the standard, written as the bytes of their big-endian form.\<close>

lemma K256_bytes: "K256 = be32 [
     CHR 0x42, CHR 0x8a, CHR 0x2f, CHR 0x98, CHR 0x71, CHR 0x37, CHR 0x44, CHR 0x91,
     CHR 0xb5, CHR 0xc0, CHR 0xfb, CHR 0xcf, CHR 0xe9, CHR 0xb5, CHR 0xdb, CHR 0xa5,
     CHR 0x39, CHR 0x56, CHR 0xc2, CHR 0x5b, CHR 0x59, CHR 0xf1, CHR 0x11, CHR 0xf1,
     CHR 0x92, CHR 0x3f, CHR 0x82, CHR 0xa4, CHR 0xab, CHR 0x1c, CHR 0x5e, CHR 0xd5,
     CHR 0xd8, CHR 0x07, CHR 0xaa, CHR 0x98, CHR 0x12, CHR 0x83, CHR 0x5b, CHR 0x01,
     CHR 0x24, CHR 0x31, CHR 0x85, CHR 0xbe, CHR 0x55, CHR 0x0c, CHR 0x7d, CHR 0xc3,
     CHR 0x72, CHR 0xbe, CHR 0x5d, CHR 0x74, CHR 0x80, CHR 0xde, CHR 0xb1, CHR 0xfe,
     CHR 0x9b, CHR 0xdc, CHR 0x06, CHR 0xa7, CHR 0xc1, CHR 0x9b, CHR 0xf1, CHR 0x74,
     CHR 0xe4, CHR 0x9b, CHR 0x69, CHR 0xc1, CHR 0xef, CHR 0xbe, CHR 0x47, CHR 0x86,
     CHR 0x0f, CHR 0xc1, CHR 0x9d, CHR 0xc6, CHR 0x24, CHR 0x0c, CHR 0xa1, CHR 0xcc,
     CHR 0x2d, CHR 0xe9, CHR 0x2c, CHR 0x6f, CHR 0x4a, CHR 0x74, CHR 0x84, CHR 0xaa,
     CHR 0x5c, CHR 0xb0, CHR 0xa9, CHR 0xdc, CHR 0x76, CHR 0xf9, CHR 0x88, CHR 0xda,
     CHR 0x98, CHR 0x3e, CHR 0x51, CHR 0x52, CHR 0xa8, CHR 0x31, CHR 0xc6, CHR 0x6d,
     CHR 0xb0, CHR 0x03, CHR 0x27, CHR 0xc8, CHR 0xbf, CHR 0x59, CHR 0x7f, CHR 0xc7,
     CHR 0xc6, CHR 0xe0, CHR 0x0b, CHR 0xf3, CHR 0xd5, CHR 0xa7, CHR 0x91, CHR 0x47,
     CHR 0x06, CHR 0xca, CHR 0x63, CHR 0x51, CHR 0x14, CHR 0x29, CHR 0x29, CHR 0x67,
     CHR 0x27, CHR 0xb7, CHR 0x0a, CHR 0x85, CHR 0x2e, CHR 0x1b, CHR 0x21, CHR 0x38,
     CHR 0x4d, CHR 0x2c, CHR 0x6d, CHR 0xfc, CHR 0x53, CHR 0x38, CHR 0x0d, CHR 0x13,
     CHR 0x65, CHR 0x0a, CHR 0x73, CHR 0x54, CHR 0x76, CHR 0x6a, CHR 0x0a, CHR 0xbb,
     CHR 0x81, CHR 0xc2, CHR 0xc9, CHR 0x2e, CHR 0x92, CHR 0x72, CHR 0x2c, CHR 0x85,
     CHR 0xa2, CHR 0xbf, CHR 0xe8, CHR 0xa1, CHR 0xa8, CHR 0x1a, CHR 0x66, CHR 0x4b,
     CHR 0xc2, CHR 0x4b, CHR 0x8b, CHR 0x70, CHR 0xc7, CHR 0x6c, CHR 0x51, CHR 0xa3,
     CHR 0xd1, CHR 0x92, CHR 0xe8, CHR 0x19, CHR 0xd6, CHR 0x99, CHR 0x06, CHR 0x24,
     CHR 0xf4, CHR 0x0e, CHR 0x35, CHR 0x85, CHR 0x10, CHR 0x6a, CHR 0xa0, CHR 0x70,
     CHR 0x19, CHR 0xa4, CHR 0xc1, CHR 0x16, CHR 0x1e, CHR 0x37, CHR 0x6c, CHR 0x08,
     CHR 0x27, CHR 0x48, CHR 0x77, CHR 0x4c, CHR 0x34, CHR 0xb0, CHR 0xbc, CHR 0xb5,
     CHR 0x39, CHR 0x1c, CHR 0x0c, CHR 0xb3, CHR 0x4e, CHR 0xd8, CHR 0xaa, CHR 0x4a,
     CHR 0x5b, CHR 0x9c, CHR 0xca, CHR 0x4f, CHR 0x68, CHR 0x2e, CHR 0x6f, CHR 0xf3,
     CHR 0x74, CHR 0x8f, CHR 0x82, CHR 0xee, CHR 0x78, CHR 0xa5, CHR 0x63, CHR 0x6f,
     CHR 0x84, CHR 0xc8, CHR 0x78, CHR 0x14, CHR 0x8c, CHR 0xc7, CHR 0x02, CHR 0x08,
     CHR 0x90, CHR 0xbe, CHR 0xff, CHR 0xfa, CHR 0xa4, CHR 0x50, CHR 0x6c, CHR 0xeb,
     CHR 0xbe, CHR 0xf9, CHR 0xa3, CHR 0xf7, CHR 0xc6, CHR 0x71, CHR 0x78, CHR 0xf2]"
  by (simp add: K256_def u32_of_nat_def)

lemma H256_bytes: "H256 = be32 [
     CHR 0x6a, CHR 0x09, CHR 0xe6, CHR 0x67, CHR 0xbb, CHR 0x67, CHR 0xae, CHR 0x85,
     CHR 0x3c, CHR 0x6e, CHR 0xf3, CHR 0x72, CHR 0xa5, CHR 0x4f, CHR 0xf5, CHR 0x3a,
     CHR 0x51, CHR 0x0e, CHR 0x52, CHR 0x7f, CHR 0x9b, CHR 0x05, CHR 0x68, CHR 0x8c,
     CHR 0x1f, CHR 0x83, CHR 0xd9, CHR 0xab, CHR 0x5b, CHR 0xe0, CHR 0xcd, CHR 0x19]"
  by (simp add: H256_def u32_of_nat_def)

lemma replicate_numeral: "replicate (numeral k) x = x # replicate (pred_numeral k) x"
  by (simp add: numeral_eq_Suc)

lemmas sha_eval = HashData_def HashConcat_def EncodeToString_def hexdigit_def hextable_def
  nat_of_bits_def sha256_def sha_pad_def bytes_of_u64_def byte_of_nat_def bytes_of_u32_def
  compress_def K256_bytes H256_bytes add32_def bnot_def rotr_def shr_def Ch_def Maj_def
  bsig0_def bsig1_def ssig0_def ssig1_def sha_blocks.simps replicate_numeral

text \<open>The test vector of the standard for the message \<^verbatim>\<open>abc\<close>.\<close>

lemma sha256_abc:
  "EncodeToString (sha256 ''abc'') =
     ''ba7816bf8f01cfea414140de5dae2223b00361a396177a9cb410ff61f20015ad''"
  by (simp add: sha_eval)

text \<open>The leaf hashes of the payloads \<^verbatim>\<open>data1\<close> and \<^verbatim>\<open>data2\<close> of the repository's
  tests, and the hashes of the two in either order.\<close>

lemma HashData_data1:
  "HashData ''data1'' = ''b59cea5c2e5f75bb5116b892e9949fb2f4e8deb7ae4dac879c0765b6ea337cb1''"
  by (simp add: sha_eval)

lemma HashData_data2:
  "HashData ''data2'' = ''326c66827f0bbee6f00096406acbb552f5ad7f8d2bc4020aee1a690b9213f1db''"
  by (simp add: sha_eval)

lemma HashConcat_data1_data2:
  "HashConcat ''b59cea5c2e5f75bb5116b892e9949fb2f4e8deb7ae4dac879c0765b6ea337cb1''
              ''326c66827f0bbee6f00096406acbb552f5ad7f8d2bc4020aee1a690b9213f1db'' =
     ''a38aa21a2da632ba0a4b25c372d2b6c62075c83860e00fedecdb7455bb54e265''"
  by (simp add: sha_eval)

lemma HashConcat_data2_data1:
  "HashConcat ''326c66827f0bbee6f00096406acbb552f5ad7f8d2bc4020aee1a690b9213f1db''
              ''b59cea5c2e5f75bb5116b892e9949fb2f4e8deb7ae4dac879c0765b6ea337cb1'' =
     ''d9f9bc10a822f43e23c0fcac33da21664e48c74650f0b1d3d594bac3774ccb57''"
  by (simp add: sha_eval)

section \<open>The claims about construction and hashing\<close>

text \<open>
  C6. A tree of exactly three blocks has the root hash
  \<open>HashConcat (HashConcat h0 h1) (HashConcat h2 h2)\<close>, where \<open>h0\<close>, \<open>h1\<close>, \<open>h2\<close> are the
  leaf hashes in the order of the blocks: the odd node of the leaf level is paired with
  itself.
\<close>

theorem root_of_three_blocks:
  "\<exists>t. NewMerkleTree [b0, b1, b2] = Inr t \<and>
       RootHash t =
         HashConcat (HashConcat (HashData (EncryptedData b0)) (HashData (EncryptedData b1)))
                    (HashConcat (HashData (EncryptedData b2)) (HashData (EncryptedData b2)))"
  by (simp add: NewMerkleTree_def leaf_nodes_def buildTree.simps duplicate_last_def Let_def)

text \<open>
  C7. \<^verbatim>\<open>NewMerkleTree\<close> returns a tree and no error for every list of blocks; for the
  empty list the tree has no root and the empty root hash, and for a single block the root
  hash is the leaf hash of its payload.
\<close>

theorem construction_never_fails:
  "(\<exists>t. NewMerkleTree blocks = Inr t) \<and>
   NewMerkleTree [] = Inr \<lparr>Root = None, Leaves = [], RootHash = ''''\<rparr> \<and>
   (\<exists>t. NewMerkleTree [x] = Inr t \<and> RootHash t = HashData (EncryptedData x))"
proof -
  have "\<exists>t. NewMerkleTree [x] = Inr t \<and> RootHash t = HashData (EncryptedData x)"
    by (simp add: NewMerkleTree_def leaf_nodes_def Let_def)
  moreover have "NewMerkleTree [] = Inr \<lparr>Root = None, Leaves = [], RootHash = ''''\<rparr>"
    by (simp add: NewMerkleTree_def)
  ultimately show ?thesis using NewMerkleTree_Inr by blast
qed

text \<open>
  C8. \<^verbatim>\<open>HashData\<close> is the hex encoding of the SHA-256 digest of the tag \<^verbatim>\<open>LEAF:\<close> followed
  by the payload, and \<^verbatim>\<open>HashConcat\<close> that of the tag \<^verbatim>\<open>INTERNAL:\<close> followed by the left
  and then the right hash. A digest has 32 bytes (256 bits); the encoding has two
  characters per byte, all of them lower-case hex digits, with nothing between them.
  \<^verbatim>\<open>HashConcat\<close> is not commutative: the leaf hashes of \<^verbatim>\<open>data1\<close> and \<^verbatim>\<open>data2\<close> differ, and
  so do their two combinations.
\<close>

theorem hashing_contract:
  "HashData payload = EncodeToString (sha256 (''LEAF:'' @ payload)) \<and>
   HashConcat left right = EncodeToString (sha256 (''INTERNAL:'' @ left @ right)) \<and>
   length (sha256 m) = 32 \<and>
   length (EncodeToString bs) = 2 * length bs \<and>
   set (EncodeToString bs) \<subseteq> set ''0123456789abcdef'' \<and>
   ''b59cea5c2e5f75bb5116b892e9949fb2f4e8deb7ae4dac879c0765b6ea337cb1'' \<noteq>
   ''326c66827f0bbee6f00096406acbb552f5ad7f8d2bc4020aee1a690b9213f1db'' \<and>
   HashConcat ''b59cea5c2e5f75bb5116b892e9949fb2f4e8deb7ae4dac879c0765b6ea337cb1''
              ''326c66827f0bbee6f00096406acbb552f5ad7f8d2bc4020aee1a690b9213f1db'' \<noteq>
   HashConcat ''326c66827f0bbee6f00096406acbb552f5ad7f8d2bc4020aee1a690b9213f1db''
              ''b59cea5c2e5f75bb5116b892e9949fb2f4e8deb7ae4dac879c0765b6ea337cb1''"
proof -
  have "set (EncodeToString bs) \<subseteq> set ''0123456789abcdef''"
    using set_EncodeToString [of bs] by (simp add: hextable_def)
  moreover have "HashData payload = EncodeToString (sha256 (''LEAF:'' @ payload))"
    by (simp add: HashData_def)
  moreover have "HashConcat left right = EncodeToString (sha256 (''INTERNAL:'' @ left @ right))"
    by (simp add: HashConcat_def)
  ultimately show ?thesis
    by (simp add: HashConcat_data1_data2 HashConcat_data2_data1)
qed

text \<open>
  C9. For every list of blocks, the root hash of the tree is empty exactly when the list
  is empty; a tree of a non-empty list has a root, and its root hash is the hash stored
  at the root.
\<close>

theorem root_hash_invariant:
  "\<exists>t. NewMerkleTree L = Inr t \<and> (RootHash t = '''' \<longleftrightarrow> L = []) \<and>
       (case Root t of None \<Rightarrow> L = [] | Some r \<Rightarrow> L \<noteq> [] \<and> RootHash t = Hash r)"
proof (cases "L = []")
  case True
  then show ?thesis by (simp add: NewMerkleTree_def)
next
  case False
  have "\<forall>n \<in> set (leaf_nodes L). length (Hash n) = 64"
    by (auto simp: leaf_nodes_def)
  moreover have "leaf_nodes L \<noteq> []" using False by (metis length_leaf_nodes length_0_conv)
  ultimately obtain r where "buildTree (length L) (leaf_nodes L) = Some r" "length (Hash r) = 64"
    using buildTree_Some by blast
  then show ?thesis using False by (auto simp add: NewMerkleTree_def Let_def)
qed

section \<open>The claims about verification\<close>

text \<open>
  C4, as the code has it. \<^verbatim>\<open>VerifyProof\<close> has one error, for an empty list of leaf hashes;
  for every non-empty list and every proof it returns a verdict, true exactly when the
  hash reconstructed from the sorted leaf hashes and the proof is the root hash.
\<close>

theorem verify_error_only_without_leaves:
  "VerifyProof rootHash leafHashes proofPath =
     (if leafHashes = [] then Inl NoLeafHashes
      else Inr (reconstructRoot (sort leafHashes) proofPath = rootHash))"
  by (simp add: VerifyProof_def Let_def)

text \<open>
  C4, as stated, fails: no root hash, non-empty list of leaf hashes and proof make
  \<^verbatim>\<open>VerifyProof\<close> return an error.
\<close>

theorem verify_malformed_counterexample:
  "\<not> (\<exists>rootHash leafHashes proofPath.
         leafHashes \<noteq> [] \<and> isl (VerifyProof rootHash leafHashes proofPath))"
  by (simp add: VerifyProof_def Let_def)

text \<open>
  C10. The verdict of \<^verbatim>\<open>VerifyProof\<close> does not depend on the order of the leaf hashes:
  two lists with the same elements, each as often, give the same result.
\<close>

theorem verify_permutation_invariant:
  "mset L = mset P \<Longrightarrow> VerifyProof rootHash L proofPath = VerifyProof rootHash P proofPath"
proof -
  assume a: "mset L = mset P"
  have "sort L = sort P"
    by (rule properties_for_sort) (simp_all add: a)
  moreover have "length L = length P" using a by (rule mset_eq_length)
  ultimately show ?thesis by (simp add: VerifyProof_def)
qed

text \<open>The witness of C10: two leaf hashes in either order.\<close>

theorem verify_permutation_invariant_witness:
  "mset [''b'', ''a''] = mset [''a'', ''b''] \<and>
   VerifyProof ''r'' [''b'', ''a''] [] = VerifyProof ''r'' [''a'', ''b''] []"
proof -
  have m: "mset [''b'', ''a''] = mset [''a'', ''b'']" by simp
  show ?thesis using m verify_permutation_invariant [OF m] by simp
qed

section \<open>The claim about the difference with an empty tree\<close>

text \<open>
  C5, as the code has it. When one tree has no root and the other is built from a
  non-empty list of blocks, \<^verbatim>\<open>DiffTrees\<close> reports one descriptor, that of the root of the
  non-empty tree: its hash, and whether it is a leaf, which it is exactly when the tree
  has one block.
\<close>

theorem diff_with_empty_tree:
  assumes "blocks \<noteq> []" "NewMerkleTree [] = Inr e" "NewMerkleTree blocks = Inr t"
  shows "DiffTrees (Some e) (Some t) = Inr [DiffNode (RootHash t) (length blocks = 1)] \<and>
         DiffTrees (Some t) (Some e) = Inr [DiffNode (RootHash t) (length blocks = 1)]"
proof (cases "length blocks = 1")
  case True
  then obtain b where "blocks = [b]" by (cases blocks) auto
  then show ?thesis using assms
    by (auto simp add: NewMerkleTree_def leaf_nodes_def DiffTrees_def Let_def)
next
  case False
  moreover have "length blocks \<noteq> 0" using assms(1) by simp
  ultimately have "2 \<le> length blocks" by arith
  then have "2 \<le> length (leaf_nodes blocks)" by simp
  then obtain r where "buildTree (length blocks) (leaf_nodes blocks) = Some r" "\<not> IsLeaf r"
    using buildTree_inner by blast
  then show ?thesis using assms False
    by (auto simp add: NewMerkleTree_def DiffTrees_def Let_def)
qed

text \<open>The witness of C5: the tree of the one block \<^verbatim>\<open>data1\<close> against the empty tree.\<close>

theorem diff_with_empty_tree_witness:
  "[block1] \<noteq> [] \<and>
   DiffTrees (Some (projr (NewMerkleTree []))) (Some (projr (NewMerkleTree [block1]))) =
     Inr [DiffNode (HashData ''data1'') True]"
proof -
  have 1: "[block1] \<noteq> []" by simp
  have 2: "NewMerkleTree [] = Inr (projr (NewMerkleTree []))"
    by (simp add: NewMerkleTree_def)
  have 3: "NewMerkleTree [block1] = Inr (projr (NewMerkleTree [block1]))"
    by (simp add: NewMerkleTree_def Let_def)
  have "RootHash (projr (NewMerkleTree [block1])) = HashData ''data1''"
    by (simp add: NewMerkleTree_def Let_def leaf_nodes_def block1_def)
  then show ?thesis using diff_with_empty_tree [OF 1 2 3] by simp
qed

text \<open>
  C5, as stated, fails on the tree of the two blocks \<^verbatim>\<open>data1\<close> and \<^verbatim>\<open>data2\<close>: the
  difference with the empty tree is the one descriptor of the root, an inner node, and the
  descriptor of the first leaf is not in it.
\<close>

theorem diff_with_empty_tree_counterexample:
  "DiffTrees (Some (projr (NewMerkleTree []))) (Some (projr (NewMerkleTree [block1, block2]))) =
     Inr [DiffNode (HashConcat (HashData ''data1'') (HashData ''data2'')) False] \<and>
   DiffNode (HashData ''data1'') True \<notin>
     set [DiffNode (HashConcat (HashData ''data1'') (HashData ''data2'')) False]"
  by (simp add: NewMerkleTree_def Let_def leaf_nodes_def block1_def block2_def DiffTrees_def
        buildTree.simps duplicate_last_def)

end
